theory Spec2Isabelle
  imports Complex_Main
begin

section \<open>JavaScript numbers\<close>

text \<open>
  The player (\<^verbatim>\<open>script.js\<close>) keeps its camera orientation in JavaScript numbers.
  A number is modelled as a real, or one of the three special values that the
  arithmetic of the script can produce: \<open>NaN\<close> (the result of \<^verbatim>\<open>parseFloat\<close> on a text
  with no numeric prefix, of \<open>0/0\<close> and of \<open>0 * Infinity\<close>) and the two infinities
  (division of a non-zero number by zero). Rounding to 64-bit floating point and the
  sign of zero are abstracted: every finite result is the exact real, and zero is
  taken as \<open>+0\<close> (every divisor of the script that can be zero is a pixel count).
\<close>

datatype jsnum = NaN | NInf | PInf | Fin real

fun jneg :: "jsnum \<Rightarrow> jsnum" where
  "jneg NaN = NaN"
| "jneg NInf = PInf"
| "jneg PInf = NInf"
| "jneg (Fin a) = Fin (- a)"

fun jadd :: "jsnum \<Rightarrow> jsnum \<Rightarrow> jsnum" where
  "jadd NaN _ = NaN"
| "jadd _ NaN = NaN"
| "jadd PInf NInf = NaN"
| "jadd NInf PInf = NaN"
| "jadd PInf _ = PInf"
| "jadd _ PInf = PInf"
| "jadd NInf _ = NInf"
| "jadd _ NInf = NInf"
| "jadd (Fin a) (Fin b) = Fin (a + b)"

definition jsub :: "jsnum \<Rightarrow> jsnum \<Rightarrow> jsnum" where
  "jsub a b = jadd a (jneg b)"

text \<open>The sign of an infinite product or quotient: \<open>pos\<close> says whether it is positive.\<close>

definition inf_of :: "bool \<Rightarrow> jsnum" where
  "inf_of pos = (if pos then PInf else NInf)"

fun jmul :: "jsnum \<Rightarrow> jsnum \<Rightarrow> jsnum" where
  "jmul NaN _ = NaN"
| "jmul _ NaN = NaN"
| "jmul PInf PInf = PInf"
| "jmul PInf NInf = NInf"
| "jmul NInf PInf = NInf"
| "jmul NInf NInf = PInf"
| "jmul PInf (Fin b) = (if b = 0 then NaN else inf_of (0 < b))"
| "jmul NInf (Fin b) = (if b = 0 then NaN else inf_of (b < 0))"
| "jmul (Fin a) PInf = (if a = 0 then NaN else inf_of (0 < a))"
| "jmul (Fin a) NInf = (if a = 0 then NaN else inf_of (a < 0))"
| "jmul (Fin a) (Fin b) = Fin (a * b)"

fun jdiv :: "jsnum \<Rightarrow> jsnum \<Rightarrow> jsnum" where
  "jdiv NaN _ = NaN"
| "jdiv _ NaN = NaN"
| "jdiv PInf (Fin b) = inf_of (0 \<le> b)"
| "jdiv NInf (Fin b) = inf_of (b < 0)"
| "jdiv PInf _ = NaN"
| "jdiv NInf _ = NaN"
| "jdiv (Fin a) PInf = Fin 0"
| "jdiv (Fin a) NInf = Fin 0"
| "jdiv (Fin a) (Fin b) =
     (if b = 0 then (if a = 0 then NaN else inf_of (0 < a)) else Fin (a / b))"

text \<open>Comparison \<^verbatim>\<open><=\<close>: false as soon as one side is \<open>NaN\<close>.\<close>

fun jle :: "jsnum \<Rightarrow> jsnum \<Rightarrow> bool" where
  "jle NaN _ = False"
| "jle _ NaN = False"
| "jle NInf _ = True"
| "jle _ PInf = True"
| "jle PInf _ = False"
| "jle _ NInf = False"
| "jle (Fin a) (Fin b) = (a \<le> b)"

text \<open>\<^verbatim>\<open>Math.min\<close> and \<^verbatim>\<open>Math.max\<close> return \<open>NaN\<close> when an argument is \<open>NaN\<close>.\<close>

fun Math_min :: "jsnum \<Rightarrow> jsnum \<Rightarrow> jsnum" where
  "Math_min NaN _ = NaN"
| "Math_min _ NaN = NaN"
| "Math_min a b = (if jle a b then a else b)"

fun Math_max :: "jsnum \<Rightarrow> jsnum \<Rightarrow> jsnum" where
  "Math_max NaN _ = NaN"
| "Math_max _ NaN = NaN"
| "Math_max a b = (if jle a b then b else a)"

text \<open>
  The remainder operator \<^verbatim>\<open>%\<close> truncates the quotient towards zero, so the result has
  the sign of the dividend.
\<close>

definition jtrunc :: "real \<Rightarrow> int" where
  "jtrunc a = (if 0 \<le> a then \<lfloor>a\<rfloor> else \<lceil>a\<rceil>)"

fun jmod :: "jsnum \<Rightarrow> jsnum \<Rightarrow> jsnum" where
  "jmod (Fin n) (Fin d) = (if d = 0 then NaN else Fin (n - d * of_int (jtrunc (n / d))))"
| "jmod (Fin n) PInf = Fin n"
| "jmod (Fin n) NInf = Fin n"
| "jmod _ _ = NaN"

text \<open>\<^verbatim>\<open>Math.round\<close> rounds half up.\<close>

fun Math_round :: "jsnum \<Rightarrow> jsnum" where
  "Math_round (Fin a) = Fin (of_int \<lfloor>a + 1 / 2\<rfloor>)"
| "Math_round a = a"

definition num :: "nat \<Rightarrow> jsnum" where
  "num n = Fin (real n)"

section \<open>The session state\<close>

text \<open>
  \<open>orientation\<close> is the shape of \<^verbatim>\<open>state.initialOrientation\<close>; the \<^verbatim>\<open>state\<close> object has
  fields of the same three names at its top level, so those of the snapshot are
  written \<open>orientation.pan\<close>, \<open>orientation.tilt\<close> and \<open>orientation.zoom\<close>. The
  remaining fields are those of \<^verbatim>\<open>state\<close> that the orientation and raw-view code
  reads or writes, the module variable \<^verbatim>\<open>touchStartDistance\<close>, and what the script sees
  of its host: the video element, the two raw canvases, whether \<^verbatim>\<open>drawImage\<close> raises,
  the pending \<^verbatim>\<open>requestAnimationFrame(renderRawView)\<close> callbacks and the calls made on
  the canvases' 2D contexts, each with the id of its canvas. Pointer coordinates and
  wheel deltas are finite, hence reals; \<^verbatim>\<open>previousMousePosition\<close> is the pair \<open>(x, y)\<close>.
  Playback, the timeline, the sidebar and the modals do not touch these fields and are
  left out, as are the writes to the DOM that only display the state
  (\<^verbatim>\<open>updatePTZDisplay\<close>) and the console output.
\<close>

record orientation =
  pan :: jsnum
  tilt :: jsnum
  zoom :: jsnum

record video =
  src :: string
  readyState :: nat
  videoWidth :: nat
  videoHeight :: nat

record element =
  clientWidth :: int
  clientHeight :: int

record canvas =
  width :: nat
  height :: nat
  parentElement :: element

record pointer =
  clientX :: real
  clientY :: real

datatype ctxCall =
    SetFillStyle string
  | SetFont string
  | SetTextAlign string
  | FillRect jsnum jsnum jsnum jsnum
  | FillText string jsnum jsnum
  | DrawImage jsnum jsnum jsnum jsnum jsnum jsnum jsnum jsnum

record state =
  pan :: jsnum
  tilt :: jsnum
  zoom :: jsnum
  isDragging :: bool
  previousMousePosition :: "real \<times> real"
  currentView :: string
  viewLocked :: bool
  rawViewInitialized :: bool
  frontLensOffset :: jsnum
  initialOrientation :: orientation
  video :: "video option"
  touchStartDistance :: real
  rawFrontCanvas :: "canvas option"
  rawBackCanvas :: "canvas option"
  drawImageThrows :: bool
  rawFrameRequests :: nat
  contextCalls :: "(string \<times> ctxCall) list"

text \<open>
  The state as the script creates it (lines 6--26 and 785), in a page whose host parts
  are given: \<open>v\<close> is the video element, \<open>fc\<close> and \<open>bc\<close> the raw canvases.
\<close>

definition initialState :: "video option \<Rightarrow> canvas option \<Rightarrow> canvas option \<Rightarrow> state" where
  "initialState v fc bc =
     \<lparr> pan = Fin 0, tilt = Fin 0, zoom = Fin 75,
       isDragging = False,
       previousMousePosition = (0, 0),
       currentView = ''stitched'',
       viewLocked = False,
       rawViewInitialized = False,
       frontLensOffset = Fin 91,
       initialOrientation =
         \<lparr> orientation.pan = Fin 0, orientation.tilt = Fin 0, orientation.zoom = Fin 75 \<rparr>,
       video = v,
       touchStartDistance = 0,
       rawFrontCanvas = fc,
       rawBackCanvas = bc,
       drawImageThrows = False,
       rawFrameRequests = 0,
       contextCalls = [] \<rparr>"

section \<open>View modes\<close>

definition setFrontView :: "state \<Rightarrow> state" where
  "setFrontView s = s\<lparr>pan := Fin 0, tilt := Fin 0, zoom := Fin 100\<rparr>"

definition setBackView :: "state \<Rightarrow> state" where
  "setBackView s = s\<lparr>pan := Fin 180, tilt := Fin 0, zoom := Fin 100\<rparr>"

section \<open>The raw view\<close>

text \<open>
  Assigning to \<^verbatim>\<open>canvas.width\<close> converts the value to an unsigned 32-bit integer; a
  result above \<open>2147483647\<close> is replaced by the attribute's default (300 for the
  width, 150 for the height). This is the host's rule, not the script's.
\<close>

definition toCanvasSize :: "nat \<Rightarrow> int \<Rightarrow> nat" where
  "toCanvasSize dflt v =
     (let u = v mod 4294967296 in if u \<le> 2147483647 then nat u else dflt)"

definition resizeCanvas :: "canvas \<Rightarrow> canvas" where
  "resizeCanvas c =
     (let parent = parentElement c;
          width' = clientWidth parent - 32;
          height' = clientHeight parent - 50
      in c\<lparr>width := toCanvasSize 300 width', height := toCanvasSize 150 height'\<rparr>)"

definition HAVE_CURRENT_DATA :: nat where
  "HAVE_CURRENT_DATA = 2"

text \<open>
  The condition of line 406: the video element exists, its \<^verbatim>\<open>src\<close> is a non-empty
  string and a frame is available.
\<close>

definition videoReady :: "state \<Rightarrow> bool" where
  "videoReady s =
     (case video s of
        None \<Rightarrow> False
      | Some v \<Rightarrow> src v \<noteq> [] \<and> HAVE_CURRENT_DATA \<le> readyState v)"

text \<open>
  The rectangles of lines 419--440. \<open>frontRect\<close> and \<open>backRect\<close> are
  \<open>(x, y, drawWidth, drawHeight)\<close> of the front and of the back canvas.
\<close>

record rawFrameSplit =
  halfWidth :: jsnum
  frontRect :: "jsnum \<times> jsnum \<times> jsnum \<times> jsnum"
  backRect :: "jsnum \<times> jsnum \<times> jsnum \<times> jsnum"

definition splitRawFrame :: "nat \<Rightarrow> nat \<Rightarrow> canvas \<Rightarrow> canvas \<Rightarrow> rawFrameSplit" where
  "splitRawFrame vWidth vHeight frontCanvas backCanvas =
     (let halfWidth' = jdiv (num vWidth) (Fin 2);
          frontScale = Math_min (jdiv (num (width frontCanvas)) halfWidth')
                                (jdiv (num (height frontCanvas)) (num vHeight));
          backScale = Math_min (jdiv (num (width backCanvas)) halfWidth')
                               (jdiv (num (height backCanvas)) (num vHeight));
          frontDrawWidth = jmul halfWidth' frontScale;
          frontDrawHeight = jmul (num vHeight) frontScale;
          frontX = jdiv (jsub (num (width frontCanvas)) frontDrawWidth) (Fin 2);
          frontY = jdiv (jsub (num (height frontCanvas)) frontDrawHeight) (Fin 2);
          backDrawWidth = jmul halfWidth' backScale;
          backDrawHeight = jmul (num vHeight) backScale;
          backX = jdiv (jsub (num (width backCanvas)) backDrawWidth) (Fin 2);
          backY = jdiv (jsub (num (height backCanvas)) backDrawHeight) (Fin 2)
      in \<lparr> halfWidth = halfWidth',
           frontRect = (frontX, frontY, frontDrawWidth, frontDrawHeight),
           backRect = (backX, backY, backDrawWidth, backDrawHeight) \<rparr>)"

definition drawPlaceholder :: "string \<Rightarrow> canvas \<Rightarrow> string \<Rightarrow> string \<Rightarrow> (string \<times> ctxCall) list" where
  "drawPlaceholder ctx c title subtitle =
     [(ctx, SetFillStyle ''#94a3b8''),
      (ctx, SetFont ''16px sans-serif''),
      (ctx, SetTextAlign ''center''),
      (ctx, FillText title (jdiv (num (width c)) (Fin 2))
                           (jsub (jdiv (num (height c)) (Fin 2)) (Fin 10))),
      (ctx, SetFont ''12px sans-serif''),
      (ctx, FillText subtitle (jdiv (num (width c)) (Fin 2))
                              (jadd (jdiv (num (height c)) (Fin 2)) (Fin 15)))]"

definition placeholderSubtitle :: "state \<Rightarrow> string" where
  "placeholderSubtitle s =
     (case video s of
        None \<Rightarrow> ''Load a 360'' @ [CHR 0xB0] @ '' video''
      | Some v \<Rightarrow> if src v \<noteq> [] then ''Video loading...''
                  else ''Load a 360'' @ [CHR 0xB0] @ '' video'')"

text \<open>
  The two \<^verbatim>\<open>drawImage\<close> calls of the \<^verbatim>\<open>try\<close> block. When the first call raises
  (\<open>drawImageThrows\<close>), the \<^verbatim>\<open>catch\<close> logs the error and the second call is not made.
\<close>

definition drawLenses :: "bool \<Rightarrow> nat \<Rightarrow> rawFrameSplit \<Rightarrow> (string \<times> ctxCall) list" where
  "drawLenses throws vHeight sp =
     (case (frontRect sp, backRect sp) of
        ((frontX, frontY, frontDrawWidth, frontDrawHeight),
         (backX, backY, backDrawWidth, backDrawHeight)) \<Rightarrow>
          (''rawFrontCanvas'',
             DrawImage (Fin 0) (Fin 0) (halfWidth sp) (num vHeight)
                       frontX frontY frontDrawWidth frontDrawHeight) #
          (if throws then []
           else [(''rawBackCanvas'',
                   DrawImage (halfWidth sp) (Fin 0) (halfWidth sp) (num vHeight)
                             backX backY backDrawWidth backDrawHeight)]))"

text \<open>
  One call of \<^verbatim>\<open>renderRawView\<close> (lines 382--467). It returns at once when the view is
  not the raw view or a canvas is missing; otherwise it clears both canvases, draws
  the two halves of the frame or the placeholders, and asks for the next frame.
\<close>

definition renderRawView :: "state \<Rightarrow> state" where
  "renderRawView s =
     (if currentView s \<noteq> ''rawview'' then s
      else case (rawFrontCanvas s, rawBackCanvas s) of
        (Some frontCanvas, Some backCanvas) \<Rightarrow>
          (let clear =
                 [(''rawFrontCanvas'', SetFillStyle ''#000''),
                  (''rawFrontCanvas'',
                     FillRect (Fin 0) (Fin 0) (num (width frontCanvas)) (num (height frontCanvas))),
                  (''rawBackCanvas'', SetFillStyle ''#000''),
                  (''rawBackCanvas'',
                     FillRect (Fin 0) (Fin 0) (num (width backCanvas)) (num (height backCanvas)))]
           in if videoReady s then
                (case video s of
                   None \<Rightarrow> s
                 | Some v \<Rightarrow>
                     (let s1 = (if \<not> rawViewInitialized s then s\<lparr>rawViewInitialized := True\<rparr> else s);
                          sp = splitRawFrame (videoWidth v) (videoHeight v) frontCanvas backCanvas
                      in s1\<lparr>contextCalls := contextCalls s1 @ clear @
                                 drawLenses (drawImageThrows s1) (videoHeight v) sp,
                            rawFrameRequests := rawFrameRequests s1 + 1\<rparr>))
              else
                s\<lparr>contextCalls := contextCalls s @ clear @
                       drawPlaceholder ''rawFrontCanvas'' frontCanvas ''Front Lens''
                         (placeholderSubtitle s) @
                       drawPlaceholder ''rawBackCanvas'' backCanvas ''Back Lens''
                         (placeholderSubtitle s),
                  rawFrameRequests := rawFrameRequests s + 1\<rparr>)
      | _ \<Rightarrow> s)"

text \<open>
  \<^verbatim>\<open>updateRawView\<close> (lines 347--379) returns when a canvas is missing. Its log of the
  video's state reads \<^verbatim>\<open>state.video.src\<close> unguarded: without a video element that read
  raises a \<^verbatim>\<open>TypeError\<close>, which ends the listener before the canvases are resized and
  before the first \<^verbatim>\<open>renderRawView\<close>.
\<close>

definition updateRawView :: "state \<Rightarrow> state" where
  "updateRawView s =
     (case (rawFrontCanvas s, rawBackCanvas s) of
        (Some frontCanvas, Some backCanvas) \<Rightarrow>
          (case video s of
             None \<Rightarrow> s
           | Some v \<Rightarrow>
               renderRawView (s\<lparr>rawFrontCanvas := Some (resizeCanvas frontCanvas),
                                 rawBackCanvas := Some (resizeCanvas backCanvas)\<rparr>))
      | _ \<Rightarrow> s)"

text \<open>\<^verbatim>\<open>handleViewChange\<close> (lines 251--314); the \<^verbatim>\<open>switch\<close> has no default case.\<close>

definition handleViewChange :: "string \<Rightarrow> state \<Rightarrow> state" where
  "handleViewChange newView s =
     (let s1 = s\<lparr>currentView := newView\<rparr>
      in if newView = ''stitched'' then s1\<lparr>viewLocked := False\<rparr>
         else if newView = ''front'' then setFrontView (s1\<lparr>viewLocked := True\<rparr>)
         else if newView = ''back'' then setBackView (s1\<lparr>viewLocked := True\<rparr>)
         else if newView = ''rawview'' then updateRawView (s1\<lparr>rawViewInitialized := False\<rparr>)
         else if newView = ''flatview'' then setFrontView (s1\<lparr>viewLocked := True\<rparr>)
         else s1)"

section \<open>Pan, tilt and zoom controls\<close>

definition resetView :: "state \<Rightarrow> state" where
  "resetView s =
     (if currentView s = ''front'' \<or> currentView s = ''flatview'' then setFrontView s
      else if currentView s = ''back'' then setBackView s
      else s\<lparr>pan := orientation.pan (initialOrientation s),
              tilt := orientation.tilt (initialOrientation s),
              zoom := orientation.zoom (initialOrientation s)\<rparr>)"

definition calibrateFrontLens :: "state \<Rightarrow> state" where
  "calibrateFrontLens s =
     (let s1 = s\<lparr>frontLensOffset := jneg (pan s)\<rparr>;
          s2 = s1\<lparr>initialOrientation := (initialOrientation s1)\<lparr>orientation.pan := Fin 0\<rparr>\<rparr>
      in s2\<lparr>pan := Fin 0\<rparr>)"

text \<open>
  The \<^verbatim>\<open>change\<close> handler of a PTZ input (lines 677--695). \<open>type\<close> is the item's
  \<^verbatim>\<open>data-ptz\<close> attribute and \<open>value\<close> is \<^verbatim>\<open>parseFloat(input.value)\<close>, which is \<open>NaN\<close>
  when the text does not start with a number.
\<close>

definition ptzInputChange :: "string \<Rightarrow> jsnum \<Rightarrow> state \<Rightarrow> state" where
  "ptzInputChange type value s =
     (if type = ''pan'' then s\<lparr>pan := Math_max (Fin (- 180)) (Math_min (Fin 180) value)\<rparr>
      else if type = ''tilt'' then s\<lparr>tilt := Math_max (Fin (- 90)) (Math_min (Fin 90) value)\<rparr>
      else if type = ''zoom'' then s\<lparr>zoom := Math_max (Fin 20) (Math_min (Fin 120) value)\<rparr>
      else s)"

text \<open>
  Line 720 of \<^verbatim>\<open>updateOrientationWidget\<close>, and the widget it shows: the compass text
  and the rotation of the arrow. The function reads the state and writes the DOM only,
  so it returns the state as it received it.
\<close>

definition normalizedPan :: "state \<Rightarrow> jsnum" where
  "normalizedPan s = jmod (jadd (jmod (pan s) (Fin 360)) (Fin 360)) (Fin 360)"

record orientationWidget =
  compassDegrees :: jsnum
  rotation :: jsnum

definition updateOrientationWidget :: "state \<Rightarrow> orientationWidget \<times> state" where
  "updateOrientationWidget s =
     (\<lparr> compassDegrees = Math_round (normalizedPan s),
        rotation = jadd (jneg (normalizedPan s)) (Fin 180) \<rparr>, s)"

section \<open>Mouse and touch\<close>

definition onMouseDown :: "pointer \<Rightarrow> state \<Rightarrow> state" where
  "onMouseDown event s =
     (if viewLocked s then s
      else s\<lparr>isDragging := True,
              previousMousePosition := (clientX event, clientY event)\<rparr>)"

text \<open>The body shared, line for line, by the mouse and the single-touch move.\<close>

definition dragTo :: "pointer \<Rightarrow> state \<Rightarrow> state" where
  "dragTo p s =
     (let deltaX = clientX p - fst (previousMousePosition s);
          deltaY = clientY p - snd (previousMousePosition s);
          s1 = s\<lparr>pan := jsub (pan s) (Fin (deltaX * 0.3))\<rparr>;
          s2 = s1\<lparr>tilt := jadd (tilt s1) (Fin (deltaY * 0.3))\<rparr>;
          s3 = s2\<lparr>tilt := Math_max (Fin (- 90)) (Math_min (Fin 90) (tilt s2))\<rparr>
      in s3\<lparr>previousMousePosition := (clientX p, clientY p)\<rparr>)"

definition onMouseMove :: "pointer \<Rightarrow> state \<Rightarrow> state" where
  "onMouseMove event s = (if \<not> isDragging s then s else dragTo event s)"

definition onMouseUp :: "state \<Rightarrow> state" where
  "onMouseUp s = s\<lparr>isDragging := False\<rparr>"

definition onMouseWheel :: "real \<Rightarrow> state \<Rightarrow> state" where
  "onMouseWheel deltaY s =
     (let delta = deltaY * (- 0.05)
      in s\<lparr>zoom := Math_max (Fin 20) (Math_min (Fin 120) (jsub (zoom s) (Fin delta)))\<rparr>)"

definition touchDistance :: "pointer list \<Rightarrow> real" where
  "touchDistance touches =
     (let dx = clientX (touches ! 0) - clientX (touches ! 1);
          dy = clientY (touches ! 0) - clientY (touches ! 1)
      in sqrt (dx * dx + dy * dy))"

definition onTouchStart :: "pointer list \<Rightarrow> state \<Rightarrow> state" where
  "onTouchStart touches s =
     (if length touches = 1 then
        s\<lparr>isDragging := True,
          previousMousePosition := (clientX (touches ! 0), clientY (touches ! 0))\<rparr>
      else if length touches = 2 then s\<lparr>touchStartDistance := touchDistance touches\<rparr>
      else s)"

definition onTouchMove :: "pointer list \<Rightarrow> state \<Rightarrow> state" where
  "onTouchMove touches s =
     (if length touches = 1 \<and> isDragging s then dragTo (touches ! 0) s
      else if length touches = 2 then
        (let distance = touchDistance touches;
             delta = (touchStartDistance s - distance) * 0.1;
             s1 = s\<lparr>zoom := Math_max (Fin 20) (Math_min (Fin 120) (jadd (zoom s) (Fin delta)))\<rparr>
         in s1\<lparr>touchStartDistance := distance\<rparr>)
      else s)"

definition onTouchEnd :: "state \<Rightarrow> state" where
  "onTouchEnd s = s\<lparr>isDragging := False\<rparr>"

section \<open>Keyboard\<close>

text \<open>
  The \<^verbatim>\<open>keydown\<close> listener (lines 1005--1082). \<open>tagName\<close> is that of the event's
  target. The playback keys (space, left, right, \<^verbatim>\<open>f\<close>, \<^verbatim>\<open>m\<close>) change only the video
  element's playback and the page's fullscreen, outside this state.
\<close>

definition keydown :: "string \<Rightarrow> string \<Rightarrow> state \<Rightarrow> state" where
  "keydown tagName key s =
     (if tagName = ''INPUT'' \<or> tagName = ''TEXTAREA'' then s
      else if key = ''ArrowUp'' then s\<lparr>tilt := Math_max (Fin (- 90)) (jadd (tilt s) (Fin 5))\<rparr>
      else if key = ''ArrowDown'' then s\<lparr>tilt := Math_min (Fin 90) (jsub (tilt s) (Fin 5))\<rparr>
      else if key = ''r'' then resetView s
      else if key = ''c'' then calibrateFrontLens s
      else if key = ''a'' then s\<lparr>pan := jsub (pan s) (Fin 5)\<rparr>
      else if key = ''d'' then s\<lparr>pan := jadd (pan s) (Fin 5)\<rparr>
      else if key = ''w'' then s\<lparr>tilt := Math_max (Fin (- 90)) (jadd (tilt s) (Fin 5))\<rparr>
      else if key = ''s'' then s\<lparr>tilt := Math_min (Fin 90) (jsub (tilt s) (Fin 5))\<rparr>
      else if key = ''+'' \<or> key = ''='' then s\<lparr>zoom := Math_max (Fin 20) (jsub (zoom s) (Fin 5))\<rparr>
      else if key = ''-'' \<or> key = ''_'' then s\<lparr>zoom := Math_min (Fin 120) (jadd (zoom s) (Fin 5))\<rparr>
      else s)"

section \<open>The event loop\<close>

text \<open>
  The browser delivers one event at a time to the listeners registered in
  \<^verbatim>\<open>setupEventListeners\<close>. \<open>AnimationFrame\<close> is a display refresh: every
  \<^verbatim>\<open>renderRawView\<close> callback requested before it runs once (callbacks requested while
  it runs wait for the next refresh); the main \<^verbatim>\<open>animate\<close> loop runs too, reading the
  state for the camera and the widget. \<open>MediaChange\<close> is the host updating the video
  element, when there is one (a source is set, a frame is decoded).
\<close>

datatype event =
    ViewChange string
  | MouseDown pointer
  | MouseMove pointer
  | MouseUp
  | Wheel real
  | TouchStart "pointer list"
  | TouchMove "pointer list"
  | TouchEnd
  | KeyDown string string
  | PtzChange string jsnum
  | ResetClick
  | CalibrateClick
  | MediaChange video
  | AnimationFrame

definition animationFrame :: "state \<Rightarrow> state" where
  "animationFrame s =
     snd (updateOrientationWidget
            ((renderRawView ^^ rawFrameRequests s) (s\<lparr>rawFrameRequests := 0\<rparr>)))"

fun dispatch :: "event \<Rightarrow> state \<Rightarrow> state" where
  "dispatch (ViewChange newView) s = handleViewChange newView s"
| "dispatch (MouseDown e) s = onMouseDown e s"
| "dispatch (MouseMove e) s = onMouseMove e s"
| "dispatch MouseUp s = onMouseUp s"
| "dispatch (Wheel deltaY) s = onMouseWheel deltaY s"
| "dispatch (TouchStart touches) s = onTouchStart touches s"
| "dispatch (TouchMove touches) s = onTouchMove touches s"
| "dispatch TouchEnd s = onTouchEnd s"
| "dispatch (KeyDown tagName key) s = keydown tagName key s"
| "dispatch (PtzChange type value) s = ptzInputChange type value s"
| "dispatch ResetClick s = resetView s"
| "dispatch CalibrateClick s = calibrateFrontLens s"
| "dispatch (MediaChange v) s = (case video s of None \<Rightarrow> s | Some _ \<Rightarrow> s\<lparr>video := Some v\<rparr>)"
| "dispatch AnimationFrame s = animationFrame s"

fun run :: "event list \<Rightarrow> state \<Rightarrow> state" where
  "run [] s = s"
| "run (e # es) s = run es (dispatch e s)"

section \<open>Observations\<close>

text \<open>
  What one call of \<^verbatim>\<open>renderRawView\<close> adds to the calls made on the two contexts, each
  with the id of its canvas, and the two kinds of call that tell an image from a
  placeholder.
\<close>

fun isDrawImage :: "ctxCall \<Rightarrow> bool" where
  "isDrawImage (DrawImage _ _ _ _ _ _ _ _) = True"
| "isDrawImage _ = False"

fun isFillText :: "ctxCall \<Rightarrow> bool" where
  "isFillText (FillText _ _ _) = True"
| "isFillText _ = False"

definition newCalls :: "state \<Rightarrow> (string \<times> ctxCall) list" where
  "newCalls s = drop (length (contextCalls s)) (contextCalls (renderRawView s))"

text \<open>A number within bounds, and the ranges the orientation is meant to keep.\<close>

fun inRange :: "real \<Rightarrow> real \<Rightarrow> jsnum \<Rightarrow> bool" where
  "inRange lo hi (Fin a) = (lo \<le> a \<and> a \<le> hi)"
| "inRange lo hi _ = False"

definition tiltZoomInRange :: "state \<Rightarrow> bool" where
  "tiltZoomInRange s = (inRange (- 90) 90 (tilt s) \<and> inRange 20 120 (zoom s))"

definition homeInRange :: "state \<Rightarrow> bool" where
  "homeInRange s =
     (inRange (- 90) 90 (orientation.tilt (initialOrientation s))
      \<and> inRange 20 120 (orientation.zoom (initialOrientation s)))"

fun isFin :: "jsnum \<Rightarrow> bool" where
  "isFin (Fin a) = True"
| "isFin _ = False"

definition numericOrientation :: "state \<Rightarrow> bool" where
  "numericOrientation s =
     (isFin (pan s) \<and> isFin (tilt s) \<and> isFin (zoom s)
      \<and> isFin (orientation.pan (initialOrientation s))
      \<and> isFin (orientation.tilt (initialOrientation s))
      \<and> isFin (orientation.zoom (initialOrientation s)))"

text \<open>The four keys that tilt, and a numeric entry whose text is not a number.\<close>

fun isTiltKey :: "event \<Rightarrow> bool" where
  "isTiltKey (KeyDown tagName key) =
     (key = ''ArrowUp'' \<or> key = ''ArrowDown'' \<or> key = ''w'' \<or> key = ''s'')"
| "isTiltKey _ = False"

fun isNaNEntry :: "event \<Rightarrow> bool" where
  "isNaNEntry (PtzChange type value) = (value = NaN)"
| "isNaNEntry _ = False"

text \<open>
  Pages to evaluate on: a canvas not yet sized (300 by 150) in a parent of a given
  client size, a video element with no file loaded, and one playing a file whose
  frames have a given size.
\<close>

abbreviation freshCanvas :: "int \<Rightarrow> int \<Rightarrow> canvas" where
  "freshCanvas w h \<equiv>
     \<lparr>width = 300, height = 150, parentElement = \<lparr>clientWidth = w, clientHeight = h\<rparr>\<rparr>"

abbreviation emptyVideo :: video where
  "emptyVideo \<equiv> \<lparr>src = [], readyState = 0, videoWidth = 0, videoHeight = 0\<rparr>"

abbreviation playingVideo :: "nat \<Rightarrow> nat \<Rightarrow> video" where
  "playingVideo w h \<equiv> \<lparr>src = ''blob:clip'', readyState = 4, videoWidth = w, videoHeight = h\<rparr>"

section \<open>Evaluation rules\<close>

lemmas handler_defs =
  handleViewChange_def setFrontView_def setBackView_def resetView_def
  calibrateFrontLens_def ptzInputChange_def onMouseDown_def onMouseMove_def
  onMouseUp_def onMouseWheel_def onTouchStart_def onTouchMove_def onTouchEnd_def
  dragTo_def keydown_def

lemma Math_min_Fin [simp]: "Math_min (Fin a) (Fin b) = Fin (min a b)"
  by auto

lemma Math_max_Fin [simp]: "Math_max (Fin a) (Fin b) = Fin (max a b)"
  by auto

lemma clamp_number:
  assumes "a \<noteq> NaN" and "lo \<le> hi"
  shows "inRange lo hi (Math_max (Fin lo) (Math_min (Fin hi) a))"
  using assms by (cases a) auto

lemma clamp_isFin: "a \<noteq> NaN \<Longrightarrow> isFin (Math_max (Fin lo) (Math_min (Fin hi) a))"
  by (cases a) auto

lemma inRange_Fin: "inRange lo hi a \<Longrightarrow> \<exists>r. a = Fin r \<and> lo \<le> r \<and> r \<le> hi"
  by (cases a) auto

lemma isFin_Fin: "isFin a \<Longrightarrow> \<exists>r. a = Fin r"
  by (cases a) auto

section \<open>The compass reading\<close>

lemma jtrunc_frac: "- 1 < a - of_int (jtrunc a) \<and> a - of_int (jtrunc a) < 1"
  unfolding jtrunc_def by (auto; linarith)

lemma jtrunc_frac_nonneg: "0 \<le> a \<Longrightarrow> 0 \<le> a - of_int (jtrunc a)"
  unfolding jtrunc_def by (auto; linarith)

lemma jtrunc_small [simp]: "- 1 < a \<Longrightarrow> a < 1 \<Longrightarrow> jtrunc a = 0"
  unfolding jtrunc_def by (auto simp: floor_eq_iff ceiling_eq_iff)

lemma rem360_bounds:
  fixes p :: real
  shows "- 360 < p - 360 * of_int (jtrunc (p / 360))"
    and "p - 360 * of_int (jtrunc (p / 360)) < 360"
  using jtrunc_frac [of "p / 360"] by auto

lemma rem360_nonneg:
  fixes p :: real
  assumes "0 \<le> p"
  shows "0 \<le> p - 360 * of_int (jtrunc (p / 360))"
  using jtrunc_frac_nonneg [of "p / 360"] assms by auto

text \<open>
  C7. For every stored pan that is a number \<open>p\<close> of degrees, negative or beyond a full
  turn included, \<open>normalizedPan\<close> is \<^verbatim>\<open>((pan % 360) + 360) % 360\<close>; the result is a
  number in \<open>[0, 360)\<close> that differs from \<open>p\<close> by a whole number of turns; and the
  widget update that computes it hands the state back unchanged.
\<close>

theorem normalizedPan_in_range:
  assumes "pan s = Fin p"
  shows "normalizedPan s = jmod (jadd (jmod (pan s) (Fin 360)) (Fin 360)) (Fin 360)
       \<and> (\<exists>q k. normalizedPan s = Fin q \<and> 0 \<le> q \<and> q < 360 \<and> q = p + 360 * of_int k)
       \<and> snd (updateOrientationWidget s) = s"
proof -
  define r1 where "r1 = p - 360 * of_int (jtrunc (p / 360))"
  define r2 where "r2 = r1 + 360"
  define q where "q = r2 - 360 * of_int (jtrunc (r2 / 360))"
  have r2_pos: "0 \<le> r2"
    using rem360_bounds(1) [of p] by (simp add: r1_def r2_def)
  have val: "normalizedPan s = Fin q"
    using assms by (simp add: normalizedPan_def q_def r2_def r1_def)
  have lo: "0 \<le> q"
    using rem360_nonneg [OF r2_pos] by (simp add: q_def)
  have hi: "q < 360"
    using rem360_bounds(2) [of r2] by (simp add: q_def)
  have turns: "q = p + 360 * of_int (1 - jtrunc (p / 360) - jtrunc (r2 / 360))"
    by (simp add: q_def r2_def r1_def algebra_simps)
  from val lo hi turns
  have "\<exists>q k. normalizedPan s = Fin q \<and> 0 \<le> q \<and> q < 360 \<and> q = p + 360 * of_int k"
    by blast
  then show ?thesis
    by (simp add: normalizedPan_def updateOrientationWidget_def)
qed

theorem normalizedPan_in_range_witness:
  "pan (run [KeyDown ''BODY'' ''a'', KeyDown ''BODY'' ''a'', KeyDown ''BODY'' ''a'',
             KeyDown ''BODY'' ''a'', KeyDown ''BODY'' ''a'', KeyDown ''BODY'' ''a'']
          (initialState None None None)) = Fin (- 30)
   \<and> normalizedPan
        (run [KeyDown ''BODY'' ''a'', KeyDown ''BODY'' ''a'', KeyDown ''BODY'' ''a'',
              KeyDown ''BODY'' ''a'', KeyDown ''BODY'' ''a'', KeyDown ''BODY'' ''a'']
           (initialState None None None)) = Fin 330
   \<and> (\<exists>q k. normalizedPan
        (run [KeyDown ''BODY'' ''a'', KeyDown ''BODY'' ''a'', KeyDown ''BODY'' ''a'',
              KeyDown ''BODY'' ''a'', KeyDown ''BODY'' ''a'', KeyDown ''BODY'' ''a'']
           (initialState None None None)) = Fin q
          \<and> 0 \<le> q \<and> q < 360 \<and> q = - 30 + 360 * of_int k)"
proof -
  let ?s = "run [KeyDown ''BODY'' ''a'', KeyDown ''BODY'' ''a'', KeyDown ''BODY'' ''a'',
                 KeyDown ''BODY'' ''a'', KeyDown ''BODY'' ''a'', KeyDown ''BODY'' ''a'']
              (initialState None None None)"
  have h: "pan ?s = Fin (- 30)"
    by (simp add: keydown_def initialState_def jsub_def)
  have v: "normalizedPan ?s = Fin 330"
    by (simp only: normalizedPan_def h) simp
  from normalizedPan_in_range [OF h] h v show ?thesis
    by simp
qed

text \<open>Of a pan that is not a number the compass reading is not a number either.\<close>

lemma normalizedPan_NaN: "pan s = NaN \<Longrightarrow> normalizedPan s = NaN"
  by (simp add: normalizedPan_def)

section \<open>What the raw view leaves alone\<close>

lemma renderRawView_orientation:
  "pan (renderRawView s) = pan s"
  "tilt (renderRawView s) = tilt s"
  "zoom (renderRawView s) = zoom s"
  "frontLensOffset (renderRawView s) = frontLensOffset s"
  "initialOrientation (renderRawView s) = initialOrientation s"
  by (simp_all add: renderRawView_def Let_def split: option.splits)

lemma renderRawView_funpow_orientation:
  "pan ((renderRawView ^^ n) s) = pan s
   \<and> tilt ((renderRawView ^^ n) s) = tilt s
   \<and> zoom ((renderRawView ^^ n) s) = zoom s
   \<and> frontLensOffset ((renderRawView ^^ n) s) = frontLensOffset s
   \<and> initialOrientation ((renderRawView ^^ n) s) = initialOrientation s"
  by (induction n) (simp_all add: renderRawView_orientation)

lemma animationFrame_orientation:
  "pan (animationFrame s) = pan s"
  "tilt (animationFrame s) = tilt s"
  "zoom (animationFrame s) = zoom s"
  "frontLensOffset (animationFrame s) = frontLensOffset s"
  "initialOrientation (animationFrame s) = initialOrientation s"
  using renderRawView_funpow_orientation [of "rawFrameRequests s" "s\<lparr>rawFrameRequests := 0\<rparr>"]
  by (simp_all add: animationFrame_def updateOrientationWidget_def)

lemma updateRawView_orientation:
  "pan (updateRawView s) = pan s"
  "tilt (updateRawView s) = tilt s"
  "zoom (updateRawView s) = zoom s"
  "frontLensOffset (updateRawView s) = frontLensOffset s"
  "initialOrientation (updateRawView s) = initialOrientation s"
  by (simp_all add: updateRawView_def renderRawView_orientation split: option.splits)

section \<open>The ranges of tilt and zoom\<close>

text \<open>
  Every listener but the four tilt keys keeps tilt in \<open>[-90, 90]\<close> and zoom in
  \<open>[20, 120]\<close>, whatever the size or sign of the movement, as long as the text of a
  numeric entry is a number. The home orientation is part of the invariant because
  \<^verbatim>\<open>resetView\<close> copies it.
\<close>

lemma ranges_preserved:
  assumes "tiltZoomInRange s" and "homeInRange s"
    and "\<not> isTiltKey e" and "\<not> isNaNEntry e"
  shows "tiltZoomInRange (dispatch e s) \<and> homeInRange (dispatch e s)"
proof -
  from assms(1) obtain t z where t: "tilt s = Fin t" "- 90 \<le> t" "t \<le> 90"
    and z: "zoom s = Fin z" "20 \<le> z" "z \<le> 120"
    unfolding tiltZoomInRange_def by (blast dest: inRange_Fin)
  from assms(2) obtain t0 z0
    where t0: "orientation.tilt (initialOrientation s) = Fin t0" "- 90 \<le> t0" "t0 \<le> 90"
      and z0: "orientation.zoom (initialOrientation s) = Fin z0" "20 \<le> z0" "z0 \<le> 120"
    unfolding homeInRange_def by (blast dest: inRange_Fin)
  show ?thesis
  proof (cases e)
    case (PtzChange ty a)
    with assms(4) have "a \<noteq> NaN" by simp
    with PtzChange t z t0 z0 show ?thesis
      by (simp add: tiltZoomInRange_def homeInRange_def ptzInputChange_def clamp_number)
  next
    case (ViewChange nv)
    with t z t0 z0 show ?thesis
      by (simp add: tiltZoomInRange_def homeInRange_def handleViewChange_def setFrontView_def
          setBackView_def updateRawView_orientation Let_def)
  next
    case (KeyDown tn k)
    with assms(3) t z t0 z0 show ?thesis
      by (simp add: tiltZoomInRange_def homeInRange_def keydown_def resetView_def
          calibrateFrontLens_def setFrontView_def setBackView_def jsub_def Let_def)
  next
    case AnimationFrame
    with t z t0 z0 show ?thesis
      by (simp add: tiltZoomInRange_def homeInRange_def animationFrame_orientation)
  qed (use t z t0 z0 in \<open>simp_all add: tiltZoomInRange_def homeInRange_def onMouseDown_def
        onMouseMove_def onMouseUp_def onMouseWheel_def onTouchStart_def onTouchMove_def
        onTouchEnd_def dragTo_def resetView_def calibrateFrontLens_def setFrontView_def
        setBackView_def jsub_def Let_def split: option.splits\<close>)
qed

text \<open>
  C1. The tilt keys break the range. \<^verbatim>\<open>ArrowUp\<close> and \<^verbatim>\<open>w\<close> add 5 and bound the sum
  from below only; \<^verbatim>\<open>ArrowDown\<close> and \<^verbatim>\<open>s\<close> subtract 5 and bound the difference from
  above only. From a tilt of 90 (of -90), entered in the tilt field, one key press
  stores 95 (-95).
\<close>

theorem tilt_keys_leave_range:
  "tilt (run [PtzChange ''tilt'' (Fin 90), KeyDown ''BODY'' ''ArrowUp''] (initialState v fc bc))
     = Fin 95
   \<and> tilt (run [PtzChange ''tilt'' (Fin (- 90)), KeyDown ''BODY'' ''ArrowDown'']
        (initialState v fc bc)) = Fin (- 95)
   \<and> tilt (run [PtzChange ''tilt'' (Fin 90), KeyDown ''BODY'' ''w''] (initialState v fc bc))
     = Fin 95
   \<and> tilt (run [PtzChange ''tilt'' (Fin (- 90)), KeyDown ''BODY'' ''s''] (initialState v fc bc))
     = Fin (- 95)
   \<and> \<not> tiltZoomInRange
        (run [PtzChange ''tilt'' (Fin 90), KeyDown ''BODY'' ''ArrowUp''] (initialState v fc bc))"
  by (simp add: ptzInputChange_def keydown_def initialState_def jsub_def tiltZoomInRange_def)

section \<open>Numeric entry\<close>

text \<open>
  An entry that is a number, infinite ones included, is stored within the bounds of
  its field. The pan keys and the drag have no bound.
\<close>

lemma numeric_entry_clamps:
  assumes "value \<noteq> NaN"
  shows "inRange (- 180) 180 (pan (ptzInputChange ''pan'' value s))"
    and "inRange (- 90) 90 (tilt (ptzInputChange ''tilt'' value s))"
    and "inRange 20 120 (zoom (ptzInputChange ''zoom'' value s))"
  using assms by (simp_all add: ptzInputChange_def clamp_number)

lemma pan_keys_unclamped:
  "pan (keydown ''BODY'' ''d'' s) = jadd (pan s) (Fin 5)"
  "pan (keydown ''BODY'' ''a'' s) = jsub (pan s) (Fin 5)"
  by (simp_all add: keydown_def)

lemma pan_drag_unclamped:
  assumes "isDragging s"
  shows "pan (onMouseMove e s) =
           jsub (pan s) (Fin ((clientX e - fst (previousMousePosition s)) * 0.3))"
  using assms by (simp add: onMouseMove_def dragTo_def Let_def)

text \<open>
  C10. An entry whose text is not a number reaches the handler as \<open>NaN\<close>, passes both
  \<^verbatim>\<open>Math.min\<close> and \<^verbatim>\<open>Math.max\<close> unchanged, and is stored: in pan, in tilt and in zoom.
\<close>

theorem numeric_entry_stores_NaN:
  "pan (run [PtzChange ''pan'' NaN] (initialState v fc bc)) = NaN
   \<and> tilt (run [PtzChange ''tilt'' NaN] (initialState v fc bc)) = NaN
   \<and> zoom (run [PtzChange ''zoom'' NaN] (initialState v fc bc)) = NaN
   \<and> \<not> inRange (- 180) 180 (pan (run [PtzChange ''pan'' NaN] (initialState v fc bc)))"
  by (simp add: ptzInputChange_def)

text \<open>
  Without such an entry every orientation value stays a number, from the initial state
  on: a pan that is not a number has no other source.
\<close>

lemma numeric_preserved:
  assumes "numericOrientation s" and "\<not> isNaNEntry e"
  shows "numericOrientation (dispatch e s)"
proof -
  from assms(1) obtain p t z p0 t0 z0 where f:
    "pan s = Fin p" "tilt s = Fin t" "zoom s = Fin z"
    "orientation.pan (initialOrientation s) = Fin p0"
    "orientation.tilt (initialOrientation s) = Fin t0"
    "orientation.zoom (initialOrientation s) = Fin z0"
    unfolding numericOrientation_def by (blast dest: isFin_Fin)
  show ?thesis
  proof (cases e)
    case (PtzChange ty a)
    with assms(2) have "a \<noteq> NaN" by simp
    with PtzChange f show ?thesis
      by (simp add: numericOrientation_def ptzInputChange_def clamp_isFin)
  next
    case (ViewChange nv)
    with f show ?thesis
      by (simp add: numericOrientation_def handleViewChange_def setFrontView_def
          setBackView_def updateRawView_orientation Let_def)
  next
    case (KeyDown tn k)
    with f show ?thesis
      by (simp add: numericOrientation_def keydown_def resetView_def
          calibrateFrontLens_def setFrontView_def setBackView_def jsub_def Let_def)
  next
    case AnimationFrame
    with f show ?thesis
      by (simp add: numericOrientation_def animationFrame_orientation)
  qed (use f in \<open>simp_all add: numericOrientation_def onMouseDown_def
        onMouseMove_def onMouseUp_def onMouseWheel_def onTouchStart_def onTouchMove_def
        onTouchEnd_def dragTo_def resetView_def calibrateFrontLens_def setFrontView_def
        setBackView_def jsub_def Let_def split: option.splits\<close>)
qed

lemma numeric_reachable:
  assumes "\<forall>e \<in> set es. \<not> isNaNEntry e"
  shows "numericOrientation (run es (initialState v fc bc))"
proof -
  have "numericOrientation s \<Longrightarrow> \<forall>e \<in> set es. \<not> isNaNEntry e
          \<Longrightarrow> numericOrientation (run es s)" for s
    by (induction es arbitrary: s) (simp_all add: numeric_preserved)
  moreover have "numericOrientation (initialState v fc bc)"
    by (simp add: numericOrientation_def initialState_def)
  ultimately show ?thesis using assms by blast
qed

section \<open>The lock\<close>

text \<open>
  In a locked view \<^verbatim>\<open>onMouseDown\<close> returns before it starts a drag, so a mouse drag
  changes nothing; the wheel and the pinch never read the lock.
\<close>

lemma mouse_drag_locked:
  assumes "viewLocked s" and "\<not> isDragging s"
  shows "run [MouseDown e1, MouseMove e2] s = s"
  using assms by (simp add: onMouseDown_def onMouseMove_def)

lemma wheel_zooms_locked_view:
  "zoom (run [ViewChange ''front'', Wheel (- 100)] (initialState v fc bc)) = Fin 95"
  by (simp add: handler_defs initialState_def jsub_def Let_def)

lemma pinch_zooms_locked_view:
  "zoom (run [ViewChange ''front'',
              TouchStart [\<lparr>clientX = 0, clientY = 0\<rparr>, \<lparr>clientX = 30, clientY = 40\<rparr>],
              TouchMove [\<lparr>clientX = 0, clientY = 0\<rparr>, \<lparr>clientX = 60, clientY = 80\<rparr>]]
           (initialState v fc bc)) = Fin 95"
  by (simp add: handler_defs touchDistance_def initialState_def jsub_def Let_def)

text \<open>
  C2. \<^verbatim>\<open>onTouchStart\<close> has no such return: with one finger it starts a drag in a locked
  view too, and the following \<^verbatim>\<open>onTouchMove\<close> moves pan and tilt. In the locked front
  view, a finger moved by \<open>(100, 50)\<close> takes pan from 0 to -30 and tilt from 0 to 15.
\<close>

theorem touch_drag_moves_locked_view:
  "viewLocked (run [ViewChange ''front'',
                    TouchStart [\<lparr>clientX = 0, clientY = 0\<rparr>],
                    TouchMove [\<lparr>clientX = 100, clientY = 50\<rparr>]] (initialState v fc bc))
   \<and> pan (run [ViewChange ''front'',
                TouchStart [\<lparr>clientX = 0, clientY = 0\<rparr>],
                TouchMove [\<lparr>clientX = 100, clientY = 50\<rparr>]] (initialState v fc bc)) = Fin (- 30)
   \<and> tilt (run [ViewChange ''front'',
                 TouchStart [\<lparr>clientX = 0, clientY = 0\<rparr>],
                 TouchMove [\<lparr>clientX = 100, clientY = 50\<rparr>]] (initialState v fc bc)) = Fin 15
   \<and> pan (run [ViewChange ''front''] (initialState v fc bc)) = Fin 0
   \<and> tilt (run [ViewChange ''front''] (initialState v fc bc)) = Fin 0"
  by (simp add: handler_defs initialState_def jsub_def Let_def)

section \<open>View modes and calibration\<close>

text \<open>
  C8. Entering the front view twice gives the state that entering it once gives: pan 0,
  tilt 0, zoom 100, locked, from every starting state.
\<close>

theorem setFront_idempotent:
  "handleViewChange ''front'' (handleViewChange ''front'' s) = handleViewChange ''front'' s
   \<and> pan (handleViewChange ''front'' s) = Fin 0
   \<and> tilt (handleViewChange ''front'' s) = Fin 0
   \<and> zoom (handleViewChange ''front'' s) = Fin 100
   \<and> viewLocked (handleViewChange ''front'' s)
   \<and> currentView (handleViewChange ''front'' s) = ''front''"
  by (simp add: handleViewChange_def setFrontView_def Let_def)

text \<open>
  Only calibration writes the home orientation, and it writes pan 0 there; a reset in the
  stitched view copies the home pan.
\<close>

lemma home_pan_kept:
  assumes "orientation.pan (initialOrientation s) = Fin 0"
  shows "orientation.pan (initialOrientation (dispatch e s)) = Fin 0"
  using assms
  by (cases e)
     (simp_all add: handleViewChange_def setFrontView_def setBackView_def
        updateRawView_orientation animationFrame_orientation keydown_def resetView_def
        calibrateFrontLens_def ptzInputChange_def onMouseDown_def onMouseMove_def
        onMouseUp_def onMouseWheel_def onTouchStart_def onTouchMove_def onTouchEnd_def
        dragTo_def Let_def split: option.splits)

lemma home_pan_kept_run:
  assumes "orientation.pan (initialOrientation s) = Fin 0"
  shows "orientation.pan (initialOrientation (run es s)) = Fin 0"
  using assms by (induction es arbitrary: s) (simp_all add: home_pan_kept)

lemma stitched_reset_goes_home:
  "pan (resetView (handleViewChange ''stitched'' s)) = orientation.pan (initialOrientation s)"
  by (simp add: resetView_def handleViewChange_def Let_def)

text \<open>
  C5. Calibration stores the negated pan as the front-lens offset and sets pan to 0.
  From then on, whatever events follow, switching to the stitched view and resetting
  gives pan 0, the calibrated home, from every starting state: at once, and also after
  the pan has moved (one press of \<^verbatim>\<open>d\<close> takes it to 5, the reset back to 0).
\<close>

theorem calibration_round_trip:
  "frontLensOffset (calibrateFrontLens s) = jneg (pan s)
   \<and> pan (calibrateFrontLens s) = Fin 0
   \<and> pan (resetView (handleViewChange ''stitched'' (calibrateFrontLens s))) = Fin 0
   \<and> pan (resetView (handleViewChange ''stitched'' (run es (calibrateFrontLens s)))) = Fin 0
   \<and> pan (handleViewChange ''stitched'' (run [KeyDown ''BODY'' ''d''] (calibrateFrontLens s)))
       = Fin 5
   \<and> pan (resetView (handleViewChange ''stitched''
             (run [KeyDown ''BODY'' ''d''] (calibrateFrontLens s)))) = Fin 0"
proof -
  have home: "orientation.pan (initialOrientation (calibrateFrontLens s)) = Fin 0"
    by (simp add: calibrateFrontLens_def Let_def)
  have later: "pan (resetView (handleViewChange ''stitched'' (run es (calibrateFrontLens s))))
                 = Fin 0" for es
    using home_pan_kept_run [OF home, of es] by (simp add: stitched_reset_goes_home)
  have moved: "pan (handleViewChange ''stitched''
                 (run [KeyDown ''BODY'' ''d''] (calibrateFrontLens s))) = Fin 5"
    by (simp add: calibrateFrontLens_def keydown_def handleViewChange_def Let_def)
  have first: "frontLensOffset (calibrateFrontLens s) = jneg (pan s)
      \<and> pan (calibrateFrontLens s) = Fin 0"
    by (simp add: calibrateFrontLens_def Let_def)
  from first later [of "[]"] later [of es] later [of "[KeyDown ''BODY'' ''d'']"] moved
  show ?thesis by simp
qed

text \<open>
  C4, as stated, fails: calibrating at pan 30 stores the offset -30, and calibrating
  again at once stores the offset 0.
\<close>

theorem calibrate_twice_counterexample:
  "frontLensOffset (run [PtzChange ''pan'' (Fin 30), CalibrateClick]
      (initialState None None None)) = Fin (- 30)
   \<and> frontLensOffset (run [PtzChange ''pan'' (Fin 30), CalibrateClick, CalibrateClick]
        (initialState None None None)) = Fin 0"
  by (simp add: handler_defs initialState_def Let_def)

text \<open>
  C4, amended. A second calibration right after a first leaves the state as the first
  left it except for the front-lens offset, which it sets to 0; so it changes nothing
  exactly when the pan before the first calibration was 0.
\<close>

theorem calibrate_twice:
  "calibrateFrontLens (calibrateFrontLens s) = (calibrateFrontLens s)\<lparr>frontLensOffset := Fin 0\<rparr>
   \<and> (calibrateFrontLens (calibrateFrontLens s) = calibrateFrontLens s) = (pan s = Fin 0)"
proof -
  have twice: "calibrateFrontLens (calibrateFrontLens s)
                 = (calibrateFrontLens s)\<lparr>frontLensOffset := Fin 0\<rparr>"
    by (simp add: calibrateFrontLens_def Let_def)
  have neg0: "(jneg (pan s) = Fin 0) = (pan s = Fin 0)"
    by (cases "pan s") auto
  have "((calibrateFrontLens s)\<lparr>frontLensOffset := Fin 0\<rparr> = calibrateFrontLens s)
        = (frontLensOffset (calibrateFrontLens s) = Fin 0)"
    by (cases "calibrateFrontLens s") auto
  also have "\<dots> = (pan s = Fin 0)"
    using neg0 by (simp add: calibrateFrontLens_def Let_def)
  finally show ?thesis using twice by simp
qed

section \<open>The raw view: fitting the two halves\<close>

text \<open>
  For a frame of positive size the rectangles are the letterbox fit of half the frame's
  width by its height into each canvas.
\<close>

lemma splitRawFrame_fit:
  assumes "0 < W" and "0 < H"
  shows "frontRect (splitRawFrame W H fc bc) =
           (let scale = min (real (width fc) / (real W / 2)) (real (height fc) / real H)
            in (Fin ((real (width fc) - real W / 2 * scale) / 2),
                Fin ((real (height fc) - real H * scale) / 2),
                Fin (real W / 2 * scale), Fin (real H * scale)))"
    and "backRect (splitRawFrame W H fc bc) =
           (let scale = min (real (width bc) / (real W / 2)) (real (height bc) / real H)
            in (Fin ((real (width bc) - real W / 2 * scale) / 2),
                Fin ((real (height bc) - real H * scale) / 2),
                Fin (real W / 2 * scale), Fin (real H * scale)))"
  using assms by (simp_all add: splitRawFrame_def num_def jsub_def Let_def)

text \<open>
  C3, as stated, fails: for a frame of 3840 by 1920 and a canvas of 800 by 600 the
  front rectangle is not \<open>x = 0\<close>, \<open>y = 100\<close>, \<open>drawWidth = 800\<close>, \<open>drawHeight = 400\<close>.
\<close>

theorem extractor_example_counterexample:
  "frontRect (splitRawFrame 3840 1920
       \<lparr>width = 800, height = 600, parentElement = \<lparr>clientWidth = 832, clientHeight = 650\<rparr>\<rparr>
       \<lparr>width = 800, height = 600, parentElement = \<lparr>clientWidth = 832, clientHeight = 650\<rparr>\<rparr>)
     \<noteq> (Fin 0, Fin 100, Fin 800, Fin 400)"
  by (simp add: splitRawFrame_def num_def jsub_def Let_def)

text \<open>
  C3, amended. For that frame and canvases of 800 by 600, the half frame is 1920 by
  1920, the scale is the smaller of \<open>800 / 1920\<close> and \<open>600 / 1920\<close>, that is the one
  of the height, and both the front and the back rectangle are \<open>x = 100\<close>, \<open>y = 0\<close>,
  \<open>drawWidth = 600\<close>, \<open>drawHeight = 600\<close>.
\<close>

theorem extractor_example:
  "frontRect (splitRawFrame 3840 1920
       \<lparr>width = 800, height = 600, parentElement = p\<rparr>
       \<lparr>width = 800, height = 600, parentElement = p'\<rparr>) = (Fin 100, Fin 0, Fin 600, Fin 600)
   \<and> backRect (splitRawFrame 3840 1920
       \<lparr>width = 800, height = 600, parentElement = p\<rparr>
       \<lparr>width = 800, height = 600, parentElement = p'\<rparr>) = (Fin 100, Fin 0, Fin 600, Fin 600)"
  by (simp add: splitRawFrame_def num_def jsub_def Let_def)

section \<open>The raw view: image or placeholder\<close>

text \<open>
  C6, as stated, fails. A ready video that reports a frame of width 0 (and height 0) is
  drawn with \<^verbatim>\<open>drawImage\<close>, its rectangles \<open>NaN\<close>, and no placeholder text is written; so
  is a ready frame of 3840 by 1920 on canvases of width 0.
\<close>

theorem rawview_placeholder_counterexample:
  "contextCalls (run [ViewChange ''rawview'']
      (initialState (Some (playingVideo 0 0))
         (Some (freshCanvas 832 650)) (Some (freshCanvas 832 650))))
   = [(''rawFrontCanvas'', SetFillStyle ''#000''),
      (''rawFrontCanvas'', FillRect (Fin 0) (Fin 0) (Fin 800) (Fin 600)),
      (''rawBackCanvas'', SetFillStyle ''#000''),
      (''rawBackCanvas'', FillRect (Fin 0) (Fin 0) (Fin 800) (Fin 600)),
      (''rawFrontCanvas'', DrawImage (Fin 0) (Fin 0) (Fin 0) (Fin 0) NaN NaN NaN NaN),
      (''rawBackCanvas'', DrawImage (Fin 0) (Fin 0) (Fin 0) (Fin 0) NaN NaN NaN NaN)]
   \<and> contextCalls (run [ViewChange ''rawview'']
      (initialState (Some (playingVideo 3840 1920))
         (Some (freshCanvas 32 650)) (Some (freshCanvas 32 650))))
   = [(''rawFrontCanvas'', SetFillStyle ''#000''),
      (''rawFrontCanvas'', FillRect (Fin 0) (Fin 0) (Fin 0) (Fin 600)),
      (''rawBackCanvas'', SetFillStyle ''#000''),
      (''rawBackCanvas'', FillRect (Fin 0) (Fin 0) (Fin 0) (Fin 600)),
      (''rawFrontCanvas'',
         DrawImage (Fin 0) (Fin 0) (Fin 1920) (Fin 1920) (Fin 0) (Fin 300) (Fin 0) (Fin 0)),
      (''rawBackCanvas'',
         DrawImage (Fin 1920) (Fin 0) (Fin 1920) (Fin 1920) (Fin 0) (Fin 300) (Fin 0) (Fin 0))]"
  by (simp add: handleViewChange_def updateRawView_def resizeCanvas_def toCanvasSize_def
      renderRawView_def initialState_def videoReady_def HAVE_CURRENT_DATA_def
      splitRawFrame_def drawLenses_def num_def jsub_def inf_of_def Let_def)

text \<open>
  C6, amended. In the raw view with both canvases present, a call of \<^verbatim>\<open>renderRawView\<close>
  with a video that is not ready (no element, an empty \<^verbatim>\<open>src\<close>, or a ready state below
  \<^verbatim>\<open>HAVE_CURRENT_DATA\<close>) writes the placeholder, a label and a status text on the
  front canvas and then on the back canvas, and makes no \<^verbatim>\<open>drawImage\<close> call; with a
  ready video it writes no text and calls \<^verbatim>\<open>drawImage\<close> with the left half of the frame
  on the front canvas and then, unless that call raised, with the right half on the
  back canvas, whatever the sizes. In both cases the call changes nothing of
  the state but the initialisation flag, the frame request and the calls on the
  contexts: no result of the scale division is stored.
\<close>

theorem rawview_placeholder:
  assumes "currentView s = ''rawview''"
    and "rawFrontCanvas s = Some fc" and "rawBackCanvas s = Some bc"
  shows "(\<not> videoReady s \<longrightarrow>
            filter (isDrawImage \<circ> snd) (newCalls s) = []
          \<and> filter (isFillText \<circ> snd) (newCalls s) =
              [(''rawFrontCanvas'', FillText ''Front Lens'' (jdiv (num (width fc)) (Fin 2))
                 (jsub (jdiv (num (height fc)) (Fin 2)) (Fin 10))),
               (''rawFrontCanvas'', FillText (placeholderSubtitle s) (jdiv (num (width fc)) (Fin 2))
                 (jadd (jdiv (num (height fc)) (Fin 2)) (Fin 15))),
               (''rawBackCanvas'', FillText ''Back Lens'' (jdiv (num (width bc)) (Fin 2))
                 (jsub (jdiv (num (height bc)) (Fin 2)) (Fin 10))),
               (''rawBackCanvas'', FillText (placeholderSubtitle s) (jdiv (num (width bc)) (Fin 2))
                 (jadd (jdiv (num (height bc)) (Fin 2)) (Fin 15)))])
       \<and> (videoReady s \<longrightarrow>
            filter (isFillText \<circ> snd) (newCalls s) = []
          \<and> (\<exists>v x1 y1 w1 h1 x2 y2 w2 h2.
                video s = Some v
              \<and> frontRect (splitRawFrame (videoWidth v) (videoHeight v) fc bc) = (x1, y1, w1, h1)
              \<and> backRect (splitRawFrame (videoWidth v) (videoHeight v) fc bc) = (x2, y2, w2, h2)
              \<and> filter (isDrawImage \<circ> snd) (newCalls s) =
                  (''rawFrontCanvas'',
                     DrawImage (Fin 0) (Fin 0) (jdiv (num (videoWidth v)) (Fin 2))
                       (num (videoHeight v)) x1 y1 w1 h1) #
                  (if drawImageThrows s then []
                   else [(''rawBackCanvas'',
                            DrawImage (jdiv (num (videoWidth v)) (Fin 2)) (Fin 0)
                              (jdiv (num (videoWidth v)) (Fin 2)) (num (videoHeight v))
                              x2 y2 w2 h2)])))
       \<and> renderRawView s =
           s\<lparr>rawViewInitialized := rawViewInitialized (renderRawView s),
             rawFrameRequests := rawFrameRequests (renderRawView s),
             contextCalls := contextCalls (renderRawView s)\<rparr>"
proof (cases "videoReady s")
  case False
  with assms show ?thesis
    by (simp add: newCalls_def renderRawView_def drawPlaceholder_def Let_def)
next
  case True
  then obtain v where v: "video s = Some v"
    by (auto simp: videoReady_def split: option.splits)
  let ?sp = "splitRawFrame (videoWidth v) (videoHeight v) fc bc"
  obtain x1 y1 w1 h1 where fr: "frontRect ?sp = (x1, y1, w1, h1)"
    by (cases "frontRect ?sp") auto
  obtain x2 y2 w2 h2 where br: "backRect ?sp = (x2, y2, w2, h2)"
    by (cases "backRect ?sp") auto
  have hw: "halfWidth ?sp = jdiv (num (videoWidth v)) (Fin 2)"
    by (simp add: splitRawFrame_def Let_def)
  have lenses: "drawLenses (drawImageThrows s) (videoHeight v) ?sp =
      (''rawFrontCanvas'',
         DrawImage (Fin 0) (Fin 0) (jdiv (num (videoWidth v)) (Fin 2))
           (num (videoHeight v)) x1 y1 w1 h1) #
      (if drawImageThrows s then []
       else [(''rawBackCanvas'',
                DrawImage (jdiv (num (videoWidth v)) (Fin 2)) (Fin 0)
                  (jdiv (num (videoWidth v)) (Fin 2)) (num (videoHeight v))
                  x2 y2 w2 h2)])"
    by (simp add: drawLenses_def fr br hw)
  have added: "newCalls s =
      [(''rawFrontCanvas'', SetFillStyle ''#000''),
       (''rawFrontCanvas'', FillRect (Fin 0) (Fin 0) (num (width fc)) (num (height fc))),
       (''rawBackCanvas'', SetFillStyle ''#000''),
       (''rawBackCanvas'', FillRect (Fin 0) (Fin 0) (num (width bc)) (num (height bc)))]
      @ drawLenses (drawImageThrows s) (videoHeight v) ?sp"
    using True v assms by (simp add: newCalls_def renderRawView_def Let_def)
  have images: "filter (isDrawImage \<circ> snd) (newCalls s) =
      drawLenses (drawImageThrows s) (videoHeight v) ?sp"
    unfolding added lenses by simp
  have texts: "filter (isFillText \<circ> snd) (newCalls s) = []"
    unfolding added lenses by simp
  have frame: "renderRawView s =
           s\<lparr>rawViewInitialized := rawViewInitialized (renderRawView s),
             rawFrameRequests := rawFrameRequests (renderRawView s),
             contextCalls := contextCalls (renderRawView s)\<rparr>"
    using True v assms by (simp add: renderRawView_def Let_def)
  have "\<exists>v x1 y1 w1 h1 x2 y2 w2 h2.
                video s = Some v
              \<and> frontRect (splitRawFrame (videoWidth v) (videoHeight v) fc bc) = (x1, y1, w1, h1)
              \<and> backRect (splitRawFrame (videoWidth v) (videoHeight v) fc bc) = (x2, y2, w2, h2)
              \<and> filter (isDrawImage \<circ> snd) (newCalls s) =
                  (''rawFrontCanvas'',
                     DrawImage (Fin 0) (Fin 0) (jdiv (num (videoWidth v)) (Fin 2))
                       (num (videoHeight v)) x1 y1 w1 h1) #
                  (if drawImageThrows s then []
                   else [(''rawBackCanvas'',
                            DrawImage (jdiv (num (videoWidth v)) (Fin 2)) (Fin 0)
                              (jdiv (num (videoWidth v)) (Fin 2)) (num (videoHeight v))
                              x2 y2 w2 h2)])"
    using v fr br images lenses by metis
  with True texts frame show ?thesis
    by blast
qed

theorem rawview_placeholder_witness:
  "currentView (run [ViewChange ''rawview'']
      (initialState (Some emptyVideo) (Some (freshCanvas 832 650)) (Some (freshCanvas 832 650))))
     = ''rawview''
   \<and> \<not> videoReady (run [ViewChange ''rawview'']
      (initialState (Some emptyVideo) (Some (freshCanvas 832 650)) (Some (freshCanvas 832 650))))
   \<and> filter (isDrawImage \<circ> snd) (newCalls (run [ViewChange ''rawview'']
      (initialState (Some emptyVideo) (Some (freshCanvas 832 650)) (Some (freshCanvas 832 650)))))
     = []
   \<and> filter (isFillText \<circ> snd) (newCalls (run [ViewChange ''rawview'']
      (initialState (Some emptyVideo) (Some (freshCanvas 832 650)) (Some (freshCanvas 832 650)))))
     = [(''rawFrontCanvas'', FillText ''Front Lens'' (Fin 400) (Fin 290)),
        (''rawFrontCanvas'',
           FillText (''Load a 360'' @ [CHR 0xB0] @ '' video'') (Fin 400) (Fin 315)),
        (''rawBackCanvas'', FillText ''Back Lens'' (Fin 400) (Fin 290)),
        (''rawBackCanvas'',
           FillText (''Load a 360'' @ [CHR 0xB0] @ '' video'') (Fin 400) (Fin 315))]
   \<and> videoReady (run [ViewChange ''rawview'']
      (initialState (Some (playingVideo 3840 1920))
         (Some (freshCanvas 832 650)) (Some (freshCanvas 832 650))))
   \<and> filter (isFillText \<circ> snd) (newCalls (run [ViewChange ''rawview'']
      (initialState (Some (playingVideo 3840 1920))
         (Some (freshCanvas 832 650)) (Some (freshCanvas 832 650))))) = []
   \<and> filter (isDrawImage \<circ> snd) (newCalls (run [ViewChange ''rawview'']
      (initialState (Some (playingVideo 3840 1920))
         (Some (freshCanvas 832 650)) (Some (freshCanvas 832 650)))))
     = [(''rawFrontCanvas'',
           DrawImage (Fin 0) (Fin 0) (Fin 1920) (Fin 1920) (Fin 100) (Fin 0) (Fin 600) (Fin 600)),
        (''rawBackCanvas'',
           DrawImage (Fin 1920) (Fin 0) (Fin 1920) (Fin 1920)
             (Fin 100) (Fin 0) (Fin 600) (Fin 600))]"
proof -
  let ?c = "\<lparr>width = 800, height = 600,
             parentElement = \<lparr>clientWidth = 832, clientHeight = 650\<rparr>\<rparr>"
  let ?idle = "run [ViewChange ''rawview'']
      (initialState (Some emptyVideo) (Some (freshCanvas 832 650)) (Some (freshCanvas 832 650)))"
  let ?play = "run [ViewChange ''rawview'']
      (initialState (Some (playingVideo 3840 1920))
         (Some (freshCanvas 832 650)) (Some (freshCanvas 832 650)))"
  have i: "currentView ?idle = ''rawview''" "rawFrontCanvas ?idle = Some ?c"
    "rawBackCanvas ?idle = Some ?c" "\<not> videoReady ?idle"
    by (simp_all add: handleViewChange_def updateRawView_def resizeCanvas_def toCanvasSize_def
        renderRawView_def initialState_def videoReady_def Let_def)
  have p: "currentView ?play = ''rawview''" "rawFrontCanvas ?play = Some ?c"
    "rawBackCanvas ?play = Some ?c" "videoReady ?play"
    by (simp_all add: handleViewChange_def updateRawView_def resizeCanvas_def toCanvasSize_def
        renderRawView_def initialState_def videoReady_def HAVE_CURRENT_DATA_def Let_def)
  have sub: "placeholderSubtitle ?idle = ''Load a 360'' @ [CHR 0xB0] @ '' video''"
    by (simp add: placeholderSubtitle_def handleViewChange_def updateRawView_def
        renderRawView_def initialState_def videoReady_def Let_def)
  have drawn: "filter (isDrawImage \<circ> snd) (newCalls ?play)
     = [(''rawFrontCanvas'',
           DrawImage (Fin 0) (Fin 0) (Fin 1920) (Fin 1920) (Fin 100) (Fin 0) (Fin 600) (Fin 600)),
        (''rawBackCanvas'',
           DrawImage (Fin 1920) (Fin 0) (Fin 1920) (Fin 1920)
             (Fin 100) (Fin 0) (Fin 600) (Fin 600))]"
    by (simp add: newCalls_def handleViewChange_def updateRawView_def resizeCanvas_def
        toCanvasSize_def renderRawView_def initialState_def videoReady_def
        HAVE_CURRENT_DATA_def splitRawFrame_def drawLenses_def num_def jsub_def Let_def)
  from rawview_placeholder [OF i(1,2,3)] rawview_placeholder [OF p(1,2,3)] i p sub drawn
  show ?thesis
    by (simp add: num_def jsub_def)
qed

section \<open>The raw view: the render loop\<close>

lemma renderRawView_inactive: "currentView s \<noteq> ''rawview'' \<Longrightarrow> renderRawView s = s"
  by (simp add: renderRawView_def)

lemma renderRawView_funpow_inactive:
  "currentView s \<noteq> ''rawview'' \<Longrightarrow> (renderRawView ^^ n) s = s"
  by (induction n) (simp_all add: renderRawView_inactive)

lemma animationFrame_inactive:
  "currentView s \<noteq> ''rawview'' \<Longrightarrow> animationFrame s = s\<lparr>rawFrameRequests := 0\<rparr>"
  by (simp add: animationFrame_def updateOrientationWidget_def renderRawView_funpow_inactive)

lemma handleViewChange_away:
  assumes "newView \<noteq> ''rawview''"
  shows "currentView (handleViewChange newView s) = newView"
    and "contextCalls (handleViewChange newView s) = contextCalls s"
    and "rawFrameRequests (handleViewChange newView s) = rawFrameRequests s"
  using assms by (simp_all add: handleViewChange_def setFrontView_def setBackView_def Let_def)

lemma keydown_frame:
  "currentView (keydown t k s) = currentView s"
  "contextCalls (keydown t k s) = contextCalls s"
  "rawFrameRequests (keydown t k s) = rawFrameRequests s"
  by (simp_all add: keydown_def resetView_def calibrateFrontLens_def setFrontView_def
      setBackView_def Let_def)

lemma pointer_frame:
  "currentView (onMouseDown e s) = currentView s"
  "contextCalls (onMouseDown e s) = contextCalls s"
  "rawFrameRequests (onMouseDown e s) = rawFrameRequests s"
  "currentView (onMouseMove e s) = currentView s"
  "contextCalls (onMouseMove e s) = contextCalls s"
  "rawFrameRequests (onMouseMove e s) = rawFrameRequests s"
  "currentView (onMouseWheel d s) = currentView s"
  "contextCalls (onMouseWheel d s) = contextCalls s"
  "rawFrameRequests (onMouseWheel d s) = rawFrameRequests s"
  "currentView (onTouchStart ts s) = currentView s"
  "contextCalls (onTouchStart ts s) = contextCalls s"
  "rawFrameRequests (onTouchStart ts s) = rawFrameRequests s"
  "currentView (onTouchMove ts s) = currentView s"
  "contextCalls (onTouchMove ts s) = contextCalls s"
  "rawFrameRequests (onTouchMove ts s) = rawFrameRequests s"
  by (simp_all add: onMouseDown_def onMouseMove_def onMouseWheel_def onTouchStart_def
      onTouchMove_def dragTo_def Let_def)

lemma controls_frame:
  "currentView (ptzInputChange ty a s) = currentView s"
  "contextCalls (ptzInputChange ty a s) = contextCalls s"
  "rawFrameRequests (ptzInputChange ty a s) = rawFrameRequests s"
  "currentView (resetView s) = currentView s"
  "contextCalls (resetView s) = contextCalls s"
  "rawFrameRequests (resetView s) = rawFrameRequests s"
  "currentView (calibrateFrontLens s) = currentView s"
  "contextCalls (calibrateFrontLens s) = contextCalls s"
  "rawFrameRequests (calibrateFrontLens s) = rawFrameRequests s"
  by (simp_all add: ptzInputChange_def resetView_def calibrateFrontLens_def setFrontView_def
      setBackView_def Let_def)

lemma dispatch_inactive:
  assumes "currentView s \<noteq> ''rawview''" and "e \<noteq> ViewChange ''rawview''"
  shows "currentView (dispatch e s) \<noteq> ''rawview''"
    and "contextCalls (dispatch e s) = contextCalls s"
    and "rawFrameRequests (dispatch e s) = (if e = AnimationFrame then 0 else rawFrameRequests s)"
  using assms
  by (cases e; simp add: handleViewChange_away keydown_frame pointer_frame controls_frame
        animationFrame_inactive onMouseUp_def onTouchEnd_def split: option.splits)+

lemma run_inactive:
  assumes "currentView s \<noteq> ''rawview''" and "ViewChange ''rawview'' \<notin> set es"
  shows "currentView (run es s) \<noteq> ''rawview''
       \<and> contextCalls (run es s) = contextCalls s
       \<and> rawFrameRequests (run es s) =
           (if AnimationFrame \<in> set es then 0 else rawFrameRequests s)"
  using assms
proof (induction es arbitrary: s)
  case Nil
  then show ?case by simp
next
  case (Cons e es)
  have e: "e \<noteq> ViewChange ''rawview''"
    using Cons.prems(2) by auto
  have es: "ViewChange ''rawview'' \<notin> set es"
    using Cons.prems(2) by simp
  note d = dispatch_inactive [OF Cons.prems(1) e]
  from Cons.IH [OF d(1) es] d(2,3) show ?case
    by auto
qed

text \<open>
  C9. Once the view has changed away from the raw view, and for as long as no event
  changes it back, nothing more is called on the raw canvases' contexts: a pending
  \<^verbatim>\<open>renderRawView\<close> callback finds the view changed and returns the state as it is,
  without drawing and without asking for another frame, so after the first display
  refresh no callback is pending.
\<close>

theorem raw_loop_stops:
  assumes "newView \<noteq> ''rawview''" and "ViewChange ''rawview'' \<notin> set es"
  shows "contextCalls (run es (handleViewChange newView s)) = contextCalls s
       \<and> renderRawView (run es (handleViewChange newView s)) = run es (handleViewChange newView s)
       \<and> (AnimationFrame \<in> set es \<longrightarrow>
            rawFrameRequests (run es (handleViewChange newView s)) = 0)"
proof -
  let ?s = "handleViewChange newView s"
  have away: "currentView ?s \<noteq> ''rawview''"
    using assms(1) by (simp add: handleViewChange_away)
  from run_inactive [OF away assms(2)] show ?thesis
    using assms(1) by (simp add: handleViewChange_away renderRawView_inactive)
qed

theorem raw_loop_stops_witness:
  "''stitched'' \<noteq> ''rawview''
   \<and> ViewChange ''rawview''
        \<notin> set [AnimationFrame, MouseDown \<lparr>clientX = 10, clientY = 10\<rparr>, AnimationFrame]
   \<and> currentView (run [ViewChange ''rawview'', AnimationFrame]
        (initialState (Some emptyVideo) (Some (freshCanvas 832 650)) (Some (freshCanvas 832 650))))
      = ''rawview''
   \<and> rawFrameRequests (run [ViewChange ''rawview'', AnimationFrame]
        (initialState (Some emptyVideo) (Some (freshCanvas 832 650)) (Some (freshCanvas 832 650))))
      = 1
   \<and> length (contextCalls (run [ViewChange ''rawview'', AnimationFrame]
        (initialState (Some emptyVideo) (Some (freshCanvas 832 650)) (Some (freshCanvas 832 650)))))
      = 32
   \<and> contextCalls
        (run [AnimationFrame, MouseDown \<lparr>clientX = 10, clientY = 10\<rparr>, AnimationFrame]
          (handleViewChange ''stitched''
            (run [ViewChange ''rawview'', AnimationFrame]
              (initialState (Some emptyVideo)
                 (Some (freshCanvas 832 650)) (Some (freshCanvas 832 650))))))
      = contextCalls (run [ViewChange ''rawview'', AnimationFrame]
          (initialState (Some emptyVideo) (Some (freshCanvas 832 650)) (Some (freshCanvas 832 650))))
   \<and> rawFrameRequests
        (run [AnimationFrame, MouseDown \<lparr>clientX = 10, clientY = 10\<rparr>, AnimationFrame]
          (handleViewChange ''stitched''
            (run [ViewChange ''rawview'', AnimationFrame]
              (initialState (Some emptyVideo)
                 (Some (freshCanvas 832 650)) (Some (freshCanvas 832 650))))))
      = 0"
proof -
  let ?raw = "run [ViewChange ''rawview'', AnimationFrame]
      (initialState (Some emptyVideo) (Some (freshCanvas 832 650)) (Some (freshCanvas 832 650)))"
  let ?es = "[AnimationFrame, MouseDown \<lparr>clientX = 10, clientY = 10\<rparr>, AnimationFrame]"
  have h1: "''stitched'' \<noteq> ''rawview''"
    by simp
  have h2: "ViewChange ''rawview'' \<notin> set ?es"
    by simp
  have h3: "AnimationFrame \<in> set ?es"
    by simp
  have raw: "currentView ?raw = ''rawview''" "rawFrameRequests ?raw = 1"
    "length (contextCalls ?raw) = 32"
    by (simp_all add: handleViewChange_def updateRawView_def resizeCanvas_def toCanvasSize_def
        renderRawView_def drawPlaceholder_def animationFrame_def updateOrientationWidget_def
        initialState_def videoReady_def Let_def)
  from raw_loop_stops [OF h1 h2, of ?raw] h1 h2 h3 raw show ?thesis
    by simp
qed

end
